theory Spec2Isabelle
  imports Complex_Main "HOL-Library.Sublist"
begin

section \<open>Python exceptions\<close>

text \<open>
  The exceptions the modelled code can raise. A function that may raise returns
  \<open>py_error + 'a\<close>, with \<open>Inl\<close> for the exception.
\<close>

datatype py_error =
    TypeError
  | KeyError
  | AttributeError
  | JSONDecodeError
  | UnicodeDecodeError
  | OverflowError
  | ZeroDivisionError
  | ConnectionFailure
  | WebSocketDisconnect
  | ConnectionClosed
  | RuntimeError
  | CancelledError

text \<open>\<open>except Exception\<close> catches everything but \<open>asyncio.CancelledError\<close>, which
  derives from \<open>BaseException\<close>.\<close>

definition is_Exception :: "py_error \<Rightarrow> bool" where
  "is_Exception e \<longleftrightarrow> e \<noteq> CancelledError"

section \<open>ConnectionManager (main.py)\<close>

text \<open>
  \<open>datetime\<close> values are microseconds on the local clock; \<open>timedelta(minutes=n)\<close>
  is the corresponding number of microseconds.
\<close>

type_synonym datetime = int

definition timedelta_minutes :: "int \<Rightarrow> int" where
  "timedelta_minutes n = n * 60000000"

datatype action = connected | disconnected

record history_entry =
  timestamp :: datetime
  action :: action
  active :: int
  total :: "int option"

record ConnectionManager =
  active_connections :: int
  total_connections :: int
  connection_history :: "history_entry list"
  token_cache :: "string option"
  token_expiry :: "datetime option"
  start_time :: datetime

text \<open>\<open>deque(maxlen=100).append\<close>: the oldest entry is dropped once the bound is reached.\<close>

definition deque_append :: "'a list \<Rightarrow> 'a \<Rightarrow> 'a list" where
  "deque_append xs x = (let ys = xs @ [x] in drop (length ys - 100) ys)"

definition init :: "datetime \<Rightarrow> ConnectionManager" where
  "init now =
     \<lparr>active_connections = 0, total_connections = 0, connection_history = [],
      token_cache = None, token_expiry = None, start_time = now\<rparr>"

text \<open>\<open>MAX_CONCURRENT_CONNECTIONS\<close> is read from the environment: a parameter here.\<close>

definition can_accept_connection :: "int \<Rightarrow> ConnectionManager \<Rightarrow> bool" where
  "can_accept_connection MAX_CONCURRENT_CONNECTIONS m \<longleftrightarrow>
     active_connections m < MAX_CONCURRENT_CONNECTIONS"

definition add_connection :: "datetime \<Rightarrow> ConnectionManager \<Rightarrow> ConnectionManager" where
  "add_connection now m =
     (let a = active_connections m + 1; t = total_connections m + 1
      in m\<lparr>active_connections := a, total_connections := t,
           connection_history := deque_append (connection_history m)
             \<lparr>timestamp = now, action = connected, active = a, total = Some t\<rparr>\<rparr>)"

definition remove_connection :: "datetime \<Rightarrow> ConnectionManager \<Rightarrow> ConnectionManager" where
  "remove_connection now m =
     (let a = max 0 (active_connections m - 1)
      in m\<lparr>active_connections := a,
           connection_history := deque_append (connection_history m)
             \<lparr>timestamp = now, action = disconnected, active = a, total = None\<rparr>\<rparr>)"

subsection \<open>get_access_token\<close>

text \<open>
  The identity provider is outside the program. Its behaviour at one call is an
  environment: what loading the service-account file gives (\<open>None\<close> when
  \<open>GOOGLE_APPLICATION_CREDENTIALS\<close> is unset or names no file), what loading
  \<open>GOOGLE_CREDENTIALS_JSON\<close> gives (\<open>None\<close> when it is unset or empty), and what
  \<open>credentials.refresh\<close> leaves in \<open>credentials.token\<close>. Any exception inside
  the \<open>try\<close> is logged and turned into \<open>None\<close>.
\<close>

record 'c auth_env =
  file_credentials :: "(py_error + 'c) option"
  json_credentials :: "(py_error + 'c) option"
  refresh :: "'c \<Rightarrow> py_error + string option"

definition refresh_token :: "'c auth_env \<Rightarrow> py_error + 'c \<Rightarrow> string option" where
  "refresh_token env loaded =
     (case loaded of
        Inl e \<Rightarrow> None
      | Inr credentials \<Rightarrow>
          (case refresh env credentials of Inl e \<Rightarrow> None | Inr token \<Rightarrow> token))"

definition get_access_token :: "'c auth_env \<Rightarrow> string option" where
  "get_access_token env =
     (case file_credentials env of
        Some loaded \<Rightarrow> refresh_token env loaded
      | None \<Rightarrow>
          (case json_credentials env of
             Some loaded \<Rightarrow> refresh_token env loaded
           | None \<Rightarrow> None))"

subsection \<open>get_cached_token\<close>

text \<open>Python truthiness of an optional string: \<open>None\<close> and \<open>""\<close> are false.\<close>

fun truthy_str :: "string option \<Rightarrow> bool" where
  "truthy_str None = False"
| "truthy_str (Some s) = (s \<noteq> [])"

text \<open>
  The result is the returned token, the manager afterwards, and whether
  \<open>get_access_token\<close> was called. A \<open>datetime\<close> is always true as a condition, so
  \<open>self.token_expiry\<close> only tests for \<open>None\<close>.
\<close>

definition get_cached_token ::
  "datetime \<Rightarrow> 'c auth_env \<Rightarrow> ConnectionManager \<Rightarrow> string option \<times> ConnectionManager \<times> bool" where
  "get_cached_token now env m =
     (if truthy_str (token_cache m) \<and>
         (case token_expiry m of None \<Rightarrow> False | Some expiry \<Rightarrow> now < expiry)
      then (token_cache m, m, False)
      else
        (let token = get_access_token env
         in if truthy_str token
            then (token, m\<lparr>token_cache := token,
                            token_expiry := Some (now + timedelta_minutes 50)\<rparr>, True)
            else (token, m, True)))"

section \<open>Interview configuration (models.py, database.py)\<close>

text \<open>
  A configuration is a MongoDB document, read as a Python dict. A key of the dict is
  absent, holds \<open>None\<close>, or holds a value of the type that models.py declares for it.
  \<open>d.get(k)\<close> and \<open>d.get(k, default)\<close> return a Python value that may be \<open>None\<close>:
  an \<open>option\<close> here.
\<close>

datatype 'a field = Missing | Null | Value 'a

fun dict_get :: "'a field \<Rightarrow> 'a option" where
  "dict_get Missing = None"
| "dict_get Null = None"
| "dict_get (Value v) = Some v"

fun dict_get_default :: "'a field \<Rightarrow> 'a \<Rightarrow> 'a option" where
  "dict_get_default Missing d = Some d"
| "dict_get_default Null d = None"
| "dict_get_default (Value v) d = Some v"

fun truthy_bool :: "bool option \<Rightarrow> bool" where
  "truthy_bool None = False"
| "truthy_bool (Some b) = b"

record proctoring_settings =
  enabled :: "bool field"
  detectMultiplePeople :: "bool field"
  detectPhone :: "bool field"
  detectTabSwitch :: "bool field"
  detectLookingAway :: "bool field"

record ai_settings =
  silenceWarning1Seconds :: "int field"
  silenceWarning2Seconds :: "int field"
  silenceEndSeconds :: "int field"
  autoEndDelaySeconds :: "int field"
  userSpeechEndDelayMs :: "int field"
  aiResponseDelayMs :: "int field"
  interruptionThresholdMs :: "int field"
  maxQuestions :: "int field"

text \<open>
  The fields of a configuration that the websocket handler and the prompt builder
  read. The \<open>ui\<close> and \<open>recording\<close> sub-documents and the voice tuning numbers are only
  copied into outgoing messages and are left out.
\<close>

record config =
  voiceName :: "string field"
  companyName :: "string field"
  jobRole :: "string field"
  candidateName :: "string field"
  language :: "string field"
  country :: "string field"
  industryType :: "string field"
  yearsOfExperience :: "string field"
  durationMinutes :: "int field"
  systemPrompt :: "string field"
  proctoring :: "proctoring_settings field"
  aiSettings :: "ai_settings field"

text \<open>The empty dict \<open>{}\<close> that \<open>config.get("aiSettings", {})\<close> and
  \<open>config.get("proctoring", {})\<close> fall back to.\<close>

definition empty_ai_settings :: ai_settings where
  "empty_ai_settings =
     \<lparr>silenceWarning1Seconds = Missing, silenceWarning2Seconds = Missing,
      silenceEndSeconds = Missing, autoEndDelaySeconds = Missing,
      userSpeechEndDelayMs = Missing, aiResponseDelayMs = Missing,
      interruptionThresholdMs = Missing, maxQuestions = Missing\<rparr>"

definition empty_proctoring :: proctoring_settings where
  "empty_proctoring =
     \<lparr>enabled = Missing, detectMultiplePeople = Missing, detectPhone = Missing,
      detectTabSwitch = Missing, detectLookingAway = Missing\<rparr>"

section \<open>String formatting\<close>

text \<open>
  A Python \<open>str\<close> is modelled by its UTF-8 bytes; prefixes and substrings of the text
  are prefixes and sublists of the bytes. \<open>str(n)\<close> of an integer is its decimal
  numeral, and \<open>str(None)\<close> is \<open>None\<close>: what an f-string slot prints.
\<close>

abbreviation dq :: string where "dq \<equiv> [CHR 0x22]"
abbreviation sq :: string where "sq \<equiv> [CHR 0x27]"

fun str_nat :: "nat \<Rightarrow> string" where
  "str_nat n =
     (if n < 10 then [''0123456789'' ! n]
      else str_nat (n div 10) @ [''0123456789'' ! (n mod 10)])"

definition str_int :: "int \<Rightarrow> string" where
  "str_int i = (if i < 0 then ''-'' @ str_nat (nat (- i)) else str_nat (nat i))"

fun format_str :: "string option \<Rightarrow> string" where
  "format_str None = ''None''"
| "format_str (Some s) = s"

fun format_int :: "int option \<Rightarrow> string" where
  "format_int None = ''None''"
| "format_int (Some i) = str_int i"

text \<open>\<open>sep.join(xs)\<close>\<close>

fun join :: "string \<Rightarrow> string list \<Rightarrow> string" where
  "join sep [] = []"
| "join sep [x] = x"
| "join sep (x # y # ys) = x @ sep @ join sep (y # ys)"

section \<open>generate_dynamic_prompt (main.py)\<close>

definition lang_instruction_casual_hindi :: string where
  "lang_instruction_casual_hindi =
     ''# '' @ [CHR 0xE2, CHR 0x9A, CHR 0xA0, CHR 0xEF, CHR 0xB8, CHR 0x8F] @
     '' CRITICAL MANDATORY LANGUAGE RULE '' @ [CHR 0xE2, CHR 0x80, CHR 0x94] @
     '' YOU MUST FOLLOW THIS:\<newline>'' @
     ''YOU MUST SPEAK ONLY IN CASUAL HINDI (Hinglish). DO NOT SPEAK IN ENGLISH.\<newline>'' @
     ''This is the #1 most important rule. Every single sentence you say MUST be in Hindi/Hinglish.\<newline>'' @
     ''\<newline>'' @
     ''## Hindi Language Rules:\<newline>'' @
     ''- ALWAYS speak in casual, everyday Hindi (Hinglish) '' @ [CHR 0xE2, CHR 0x80, CHR 0x94] @
     '' NOT formal/shudh Hindi\<newline>'' @
     ''- DO NOT use English for sentences. Only use English for technical terms like '' @ sq @
     ''array'' @ sq @ '', '' @ sq @ ''database'' @ sq @ '', '' @ sq @ ''API'' @ sq @ '', '' @ sq @
     ''system design'' @ sq @ '', etc.\<newline>'' @
     ''- Your greeting MUST be in Hindi, e.g., '' @ dq @
     ''Namaste! Main aapka interview lunga aaj.'' @ dq @ ''\<newline>'' @
     ''- Example questions: '' @ dq @
     ''Acha, toh mujhe batao ki tumne apne last project mein kya kya kiya?'' @ dq @ ''\<newline>'' @
     ''- Example follow-up: '' @ dq @
     ''Hmm interesting, toh usme kaunsa tech stack use kiya tha?'' @ dq @ ''\<newline>'' @
     ''- Be natural and friendly, jaise ek colleague se baat kar rahe ho chai pe\<newline>'' @
     ''- Even if the candidate replies in English, YOU MUST continue speaking in Hindi/Hinglish\<newline>'' @
     ''- NEVER switch to English. ALWAYS stay in Hindi/Hinglish no matter what.\<newline>'' @
     ''\<newline>'' @
     ''REMEMBER: SPEAK IN HINDI. NOT ENGLISH. THIS IS NON-NEGOTIABLE.''"

definition lang_instruction_indian_english :: string where
  "lang_instruction_indian_english =
     ''# '' @ [CHR 0xF0, CHR 0x9F, CHR 0x97, CHR 0xA3, CHR 0xEF, CHR 0xB8, CHR 0x8F] @
     '' LANGUAGE: INDIAN ENGLISH\<newline>'' @
     ''- Speak in clear, professional Indian English\<newline>'' @
     ''- Use natural Indian expressions and phrasing\<newline>'' @
     ''- Be professional but warm and approachable''"

definition exp_instruction_0_1 :: string where
  "exp_instruction_0_1 =
     ''Ask beginner-friendly questions. Focus on fundamentals, basic concepts, and willingness to learn.''"

definition exp_instruction_1_3 :: string where
  "exp_instruction_1_3 =
     ''Ask intermediate questions. Focus on practical experience, problem-solving, and coding skills.''"

definition exp_instruction_3_5 :: string where
  "exp_instruction_3_5 =
     ''Ask mid-level questions. Include system design basics, architecture decisions, and leadership potential.''"

definition exp_instruction_5_10 :: string where
  "exp_instruction_5_10 =
     ''Ask senior-level questions. Focus on system design, architecture, mentoring, and strategic thinking.''"

definition exp_instruction_10_plus :: string where
  "exp_instruction_10_plus =
     ''Ask principal/lead-level questions. Focus on large-scale system design, organizational impact, and technical vision.''"

definition rule_multiple_people :: string where
  "rule_multiple_people =
     ''1. **Multiple People Detected**: If you see more than ONE person in the frame, warn in the interview language: '' @
     dq @ ''I notice there might be someone else in the room. Please ensure you are alone.'' @ dq"

definition rule_phone :: string where
  "rule_phone =
     ''2. **Mobile Phone Usage**: If you see a phone, warn in the interview language: '' @ dq @
     ''Please keep your phone away during the interview.'' @ dq"

definition rule_looking_away :: string where
  "rule_looking_away =
     ''3. **Looking Away**: If candidate frequently looks away, warn in the interview language: '' @
     dq @ ''Please focus on the interview and maintain eye contact.'' @ dq"

definition rule_tab_switch :: string where
  "rule_tab_switch =
     ''4. **Tab Switching**: If distracted, warn in the interview language: '' @ dq @
     ''Please give your full attention to the interview.'' @ dq"

definition proctoring_disabled :: string where
  "proctoring_disabled = ''Proctoring is disabled for this interview.''"

text \<open>The language header: the casual Hindi block for \<open>"casual-hindi"\<close>, the Indian
  English block for every other value.\<close>

definition lang_instruction :: "string option \<Rightarrow> string" where
  "lang_instruction language' =
     (if language' = Some ''casual-hindi'' then lang_instruction_casual_hindi
      else lang_instruction_indian_english)"

definition exp_instruction :: "string option \<Rightarrow> string" where
  "exp_instruction experience =
     (if experience = Some ''0-1'' then exp_instruction_0_1
      else if experience = Some ''1-3'' then exp_instruction_1_3
      else if experience = Some ''3-5'' then exp_instruction_3_5
      else if experience = Some ''5-10'' then exp_instruction_5_10
      else if experience = Some ''10+'' then exp_instruction_10_plus
      else [])"

text \<open>The list \<open>rules\<close> that the proctoring block fills, one \<open>append\<close> per enabled
  detector, and its \<open>"\n".join\<close>; the empty string when \<open>enabled\<close> is false.\<close>

definition proctoring_rule_list :: "proctoring_settings \<Rightarrow> string list" where
  "proctoring_rule_list proctoring' =
     (if truthy_bool (dict_get_default (detectMultiplePeople proctoring') True)
      then [rule_multiple_people] else []) @
     (if truthy_bool (dict_get_default (detectPhone proctoring') True)
      then [rule_phone] else []) @
     (if truthy_bool (dict_get_default (detectLookingAway proctoring') True)
      then [rule_looking_away] else []) @
     (if truthy_bool (dict_get_default (detectTabSwitch proctoring') True)
      then [rule_tab_switch] else [])"

definition proctoring_rules :: "proctoring_settings \<Rightarrow> string" where
  "proctoring_rules proctoring' =
     (if truthy_bool (dict_get_default (enabled proctoring') True)
      then join ''\<newline>'' (proctoring_rule_list proctoring')
      else [])"

text \<open>The slot \<open>{"The candidate's name is " + candidate_name + "." if candidate_name else ""}\<close>.\<close>

fun candidate_line :: "string option \<Rightarrow> string" where
  "candidate_line None = []"
| "candidate_line (Some candidate_name) =
     (if candidate_name \<noteq> [] then ''The candidate'' @ sq @ ''s name is '' @ candidate_name @ ''.''
      else [])"

text \<open>The f-string of the prompt, with its slots as arguments.\<close>

definition prompt_template ::
  "string \<Rightarrow> string option \<Rightarrow> string option \<Rightarrow> string option \<Rightarrow> string option \<Rightarrow> string option \<Rightarrow>
   string option \<Rightarrow> string \<Rightarrow> string \<Rightarrow> int option \<Rightarrow> int option \<Rightarrow> int option \<Rightarrow> string" where
  "prompt_template lang company_name job_role industry country' experience
       candidate_name exp' rules silence_warning2 duration_minutes max_questions =
        lang @
        ''\<newline>'' @
        ''\<newline>'' @
        ''You are conducting a real-time technical interview for '' @
        format_str company_name @
        '' for the position of '' @
        format_str job_role @
        ''.\<newline>'' @
        ''Industry: '' @
        format_str industry @
        '' | Country: '' @
        format_str country' @
        '' | Expected Experience: '' @
        format_str experience @
        '' years\<newline>'' @
        ''\<newline>'' @
        ''You can hear and also see the candidate through audio and video.\<newline>'' @
        candidate_line candidate_name @
        ''\<newline>'' @
        ''\<newline>'' @
        ''# '' @ [CHR 0xF0, CHR 0x9F, CHR 0x8E, CHR 0xAF] @ '' EXPERIENCE-BASED DIFFICULTY:\<newline>'' @
        exp' @
        ''\<newline>'' @
        ''\<newline>'' @
        ''# '' @ [CHR 0xF0, CHR 0x9F, CHR 0x94, CHR 0xB4] @ '' PROCTORING & MONITORING:\<newline>'' @
        (if rules \<noteq> [] then rules else proctoring_disabled) @
        ''\<newline>'' @
        ''\<newline>'' @
        ''# '' @ [CHR 0xE2, CHR 0x8F, CHR 0xB1, CHR 0xEF, CHR 0xB8, CHR 0x8F] @
        '' SILENT USER DETECTION:\<newline>'' @
        ''The system will send you messages about candidate silence. Respond appropriately:\<newline>'' @
        ''- If you receive '' @ dq @ ''[SYSTEM] I am waiting for your response'' @ dq @
        '': \<newline>'' @
        ''  Say: '' @ dq @ ''I am waiting for your response.'' @ dq @ ''\<newline>'' @
        ''- If you receive '' @ dq @ ''[SYSTEM] Candidate silent for '' @
        format_int silence_warning2 @
        '' seconds - FINAL WARNING'' @ dq @ '':\<newline>'' @
        ''  Say firmly: '' @ dq @ ''If you do not respond, we will end the interview shortly.'' @ dq @
        ''\<newline>'' @
        ''- If you receive '' @ dq @ ''[SYSTEM] Ending interview due to no response'' @ dq @
        '':\<newline>'' @
        ''  Say: '' @ dq @
        ''Since there has been no response, we are ending this interview session now.'' @ dq @
        ''\<newline>'' @
        ''- If you receive '' @ dq @ ''[SYSTEM] Interview time limit ('' @
        format_int duration_minutes @
        '' minutes) reached'' @ dq @ '':\<newline>'' @
        ''  Say: '' @ dq @ ''We have reached the '' @
        format_int duration_minutes @
        ''-minute time limit. The interview is now complete.'' @ dq @ ''\<newline>'' @
        ''\<newline>'' @
        ''# '' @ [CHR 0xF0, CHR 0x9F, CHR 0x94, CHR 0x84] @ '' IMPORTANT:\<newline>'' @
        ''If the candidate speaks after any warning, IMMEDIATELY continue the interview normally.\<newline>'' @
        ''\<newline>'' @
        ''# Interview Structure:\<newline>'' @
        ''1. Greet the candidate appropriately\<newline>'' @
        ''2. Ask candidate to introduce themselves\<newline>'' @
        ''3. Ask up to '' @
        format_int max_questions @
        '' questions appropriate for their experience level\<newline>'' @
        ''4. Close the interview professionally\<newline>'' @
        ''\<newline>'' @
        ''# Communication Rules:\<newline>'' @
        ''- Be professional but friendly\<newline>'' @
        ''- Listen carefully and ask follow-up questions\<newline>'' @
        ''- Keep responses concise\<newline>'' @
        ''- Encourage good answers\<newline>'' @
        ''- Use natural, conversational language\<newline>''"

definition generate_dynamic_prompt ::
  "config \<Rightarrow> ai_settings \<Rightarrow> proctoring_settings \<Rightarrow> string" where
  "generate_dynamic_prompt config ai proctoring' =
     (let company_name = dict_get_default (companyName config) ''the company'';
          job_role = dict_get_default (jobRole config) ''Software Engineer'';
          candidate_name = dict_get_default (candidateName config) [];
          language' = dict_get_default (language config) ''indian-english'';
          country' = dict_get_default (country config) ''India'';
          industry = dict_get_default (industryType config) ''Information Technology'';
          experience = dict_get_default (yearsOfExperience config) ''1-3'';
          duration_minutes = dict_get_default (durationMinutes config) 30;
          silence_warning2 = dict_get_default (silenceWarning2Seconds ai) 50;
          max_questions = dict_get_default (maxQuestions ai) 10
      in prompt_template (lang_instruction language') company_name job_role industry country'
           experience candidate_name (exp_instruction experience) (proctoring_rules proctoring')
           silence_warning2 duration_minutes max_questions)"

section \<open>The websocket handler (main.py, websocket_interview)\<close>

subsection \<open>Building the system prompt\<close>

text \<open>
  Lines 452 to 461 of the handler: a truthy \<open>systemPrompt\<close> is used as it is, otherwise
  the prompt is generated. \<open>proctoring\<close> is what \<open>config.get("proctoring", {})\<close> gave,
  \<open>None\<close> when the document stores a null there: \<open>proctoring.get\<close> then raises inside
  \<open>generate_dynamic_prompt\<close>.
\<close>

definition system_prompt ::
  "config \<Rightarrow> ai_settings \<Rightarrow> proctoring_settings option \<Rightarrow> py_error + string" where
  "system_prompt config ai proctoring' =
     (let custom_prompt = dict_get (systemPrompt config)
      in if truthy_str custom_prompt then Inr (format_str custom_prompt)
         else (case proctoring' of
                 None \<Rightarrow> Inl AttributeError
               | Some p \<Rightarrow> Inr (generate_dynamic_prompt config ai p)))"

subsection \<open>One run of the handler\<close>

text \<open>
  Everything outside the process that one run of the handler meets is its environment:
  whether \<open>websocket.accept\<close>, \<open>send_json\<close> and \<open>close\<close> raise, what
  \<open>get_config_by_token\<close> gives for the client's token and for \<open>"default"\<close> (it raises
  when MongoDB cannot be reached), the identity provider, how the \<open>async with connect(...)\<close> block ends (\<open>None\<close>: it runs to its
  end, which covers the relay's timeout and both pumps' ends, all handled inside
  \<open>relay_messages\<close>), and the clock readings. An exception of \<open>create_session\<close> is
  caught and logged on the spot and changes nothing here.
\<close>

record 'c handler_env =
  accept_raises :: "py_error option"
  config_by_token :: "py_error + config option"
  config_default :: "py_error + config option"
  send_json_raises :: "py_error option"
  auth :: "'c auth_env"
  upstream_raises :: "py_error option"
  close_raises :: "py_error option"
  now_added :: datetime
  now_token :: datetime
  now_removed :: datetime

datatype close_reason = Reason string | StrOf py_error

text \<open>
  What a run did: the manager afterwards, how often it called \<open>add_connection\<close> and
  \<open>remove_connection\<close>, the \<open>websocket.close\<close> calls, the system prompt built for
  the setup message once the handler has reached the upstream connection, and the
  exception that left the handler, if one did.
\<close>

record handler_result =
  manager_after :: ConnectionManager
  added :: nat
  removed :: nat
  closes :: "(nat \<times> close_reason) list"
  setup_prompt :: "string option"
  raised :: "py_error option"

definition release :: "datetime \<Rightarrow> handler_result \<Rightarrow> handler_result" where
  "release now r =
     r\<lparr>manager_after := remove_connection now (manager_after r), removed := Suc (removed r)\<rparr>"

definition close :: "'c handler_env \<Rightarrow> nat \<Rightarrow> close_reason \<Rightarrow> handler_result \<Rightarrow> handler_result" where
  "close env code reason r = r\<lparr>closes := closes r @ [(code, reason)], raised := close_raises env\<rparr>"

text \<open>\<open>get_config_by_token(token)\<close>, then \<open>get_config_by_token("default")\<close> when the
  first gave nothing.\<close>

definition load_config :: "'c handler_env \<Rightarrow> py_error + config option" where
  "load_config env =
     (case config_by_token env of
        Inl e \<Rightarrow> Inl e
      | Inr (Some config) \<Rightarrow> Inr (Some config)
      | Inr None \<Rightarrow> config_default env)"

text \<open>The \<open>try\<close> / \<open>except\<close> / \<open>finally\<close> around the upstream connection (lines 515 to 569).\<close>

definition upstream_session ::
  "'c handler_env \<Rightarrow> string \<Rightarrow> handler_result \<Rightarrow> handler_result" where
  "upstream_session env prompt r =
     (let r1 = r\<lparr>setup_prompt := Some prompt\<rparr>
      in case upstream_raises env of
           None \<Rightarrow> release (now_removed env) r1
         | Some e \<Rightarrow>
             if e = WebSocketDisconnect then release (now_removed env) r1
             else if is_Exception e
             then release (now_removed env) ((close env 1011 (StrOf e) r1)\<lparr>raised := None\<rparr>)
             else (release (now_removed env) r1)\<lparr>raised := Some e\<rparr>)"

text \<open>From \<open>websocket.send_json(config_message)\<close> to the end (lines 498 to 569).\<close>

definition start_session ::
  "'c handler_env \<Rightarrow> string \<Rightarrow> handler_result \<Rightarrow> handler_result" where
  "start_session env prompt r1 =
     (case send_json_raises env of
        Some e \<Rightarrow> r1\<lparr>raised := Some e\<rparr>
      | None \<Rightarrow>
          (case get_cached_token (now_token env) (auth env) (manager_after r1) of
             (access_token, m2, fetched) \<Rightarrow>
               if \<not> truthy_str access_token
               then close env 1011 (Reason ''Authentication failed'')
                      (release (now_removed env) (r1\<lparr>manager_after := m2\<rparr>))
               else upstream_session env prompt (r1\<lparr>manager_after := m2\<rparr>)))"

text \<open>From the extraction of the settings to the end (lines 425 to 569).
  \<open>ai_settings.get\<close> raises when the document stores a null under \<open>aiSettings\<close>.\<close>

definition run_with_config ::
  "'c handler_env \<Rightarrow> config \<Rightarrow> handler_result \<Rightarrow> handler_result" where
  "run_with_config env config r1 =
     (case dict_get_default (aiSettings config) empty_ai_settings of
        None \<Rightarrow> r1\<lparr>raised := Some AttributeError\<rparr>
      | Some ai \<Rightarrow>
          (case system_prompt config ai (dict_get_default (proctoring config) empty_proctoring) of
             Inl e \<Rightarrow> r1\<lparr>raised := Some e\<rparr>
           | Inr prompt \<Rightarrow> start_session env prompt r1))"

definition websocket_interview ::
  "int \<Rightarrow> 'c handler_env \<Rightarrow> ConnectionManager \<Rightarrow> handler_result" where
  "websocket_interview MAX_CONCURRENT_CONNECTIONS env m =
     (let r0 = \<lparr>manager_after = m, added = 0, removed = 0, closes = [],
                setup_prompt = None, raised = None\<rparr>
      in if \<not> can_accept_connection MAX_CONCURRENT_CONNECTIONS m
         then close env 1008 (Reason ''Server at capacity'') r0
         else
           (case accept_raises env of
              Some e \<Rightarrow> r0\<lparr>raised := Some e\<rparr>
            | None \<Rightarrow>
                (let r1 = r0\<lparr>manager_after := add_connection (now_added env) m, added := 1\<rparr>
                 in case load_config env of
                      Inl e \<Rightarrow> r1\<lparr>raised := Some e\<rparr>
                    | Inr None \<Rightarrow>
                        close env 1011 (Reason ''Configuration not found'')
                          (release (now_removed env) r1)
                    | Inr (Some config) \<Rightarrow> run_with_config env config r1)))"

subsection \<open>Handlers running concurrently\<close>

text \<open>
  The handlers are coroutines on one event loop: a handler runs without interruption
  until an \<open>await\<close> suspends it, and only then may another handler run. Under the ASGI
  server that main.py starts (uvicorn), \<open>await websocket.accept()\<close> returns without
  suspending: the connect message is already there and the accept is only handed to the
  server. So the capacity check, the accept and \<open>add_connection\<close> (lines 400 to 406)
  run in one stretch, and \<open>remove_connection\<close>, which has no \<open>await\<close>, runs in one
  stretch too. As far as the manager is concerned a handler is at one of five places: not
  yet started; admitted, anywhere in the session; rejected at capacity; left by an
  exception of \<open>accept\<close>; past \<open>remove_connection\<close>. A schedule is the order in which
  the event loop runs the handlers' stretches, each with the clock reading and with
  whether \<open>accept\<close> succeeds. A handler that is never run again keeps its slot.
\<close>

datatype pc = Start | Admitted | Rejected | Aborted | Released

record system =
  manager :: ConnectionManager
  handlers :: "pc list"




section \<open>The relay, upstream to client (main.py, relay_messages)\<close>

subsection \<open>Parsed JSON as Python values\<close>

text \<open>
  What \<open>json.loads\<close> returns: \<open>None\<close>, a bool, an int, a float, a str, a list, or a
  dict (its items in order, keys distinct). Of a float only its truth value is read, so
  a non-finite float is any non-zero real here.
\<close>

datatype json =
    JNull
  | JBool bool
  | JInt int
  | JFloat real
  | JStr string
  | JArr "json list"
  | JObj "(string \<times> json) list"

fun truthy :: "json \<Rightarrow> bool" where
  "truthy JNull = False"
| "truthy (JBool b) = b"
| "truthy (JInt i) = (i \<noteq> 0)"
| "truthy (JFloat x) = (x \<noteq> 0)"
| "truthy (JStr s) = (s \<noteq> [])"
| "truthy (JArr xs) = (xs \<noteq> [])"
| "truthy (JObj kvs) = (kvs \<noteq> [])"

text \<open>\<open>key in data\<close>: a key of a dict, an element of a list, a substring of a str; a
  \<open>TypeError\<close> on anything else.\<close>

fun py_in :: "string \<Rightarrow> json \<Rightarrow> py_error + bool" where
  "py_in key (JObj kvs) = Inr (key \<in> set (map fst kvs))"
| "py_in key (JArr xs) = Inr (JStr key \<in> set xs)"
| "py_in key (JStr s) = Inr (sublist key s)"
| "py_in key JNull = Inl TypeError"
| "py_in key (JBool b) = Inl TypeError"
| "py_in key (JInt i) = Inl TypeError"
| "py_in key (JFloat x) = Inl TypeError"

text \<open>\<open>data[key]\<close> with a str key: the value in a dict, a \<open>KeyError\<close> when the dict has
  no such key, a \<open>TypeError\<close> on anything else.\<close>

fun py_getitem :: "json \<Rightarrow> string \<Rightarrow> py_error + json" where
  "py_getitem (JObj kvs) key = (case map_of kvs key of Some v \<Rightarrow> Inr v | None \<Rightarrow> Inl KeyError)"
| "py_getitem JNull key = Inl TypeError"
| "py_getitem (JBool b) key = Inl TypeError"
| "py_getitem (JInt i) key = Inl TypeError"
| "py_getitem (JFloat x) key = Inl TypeError"
| "py_getitem (JStr s) key = Inl TypeError"
| "py_getitem (JArr xs) key = Inl TypeError"

text \<open>\<open>d.get(key, default)\<close>, and \<open>d.get(key)\<close> with the default \<open>None\<close>: an
  \<open>AttributeError\<close> on anything but a dict.\<close>

fun py_get :: "json \<Rightarrow> string \<Rightarrow> json \<Rightarrow> py_error + json" where
  "py_get (JObj kvs) key dflt = (case map_of kvs key of Some v \<Rightarrow> Inr v | None \<Rightarrow> Inr dflt)"
| "py_get JNull key dflt = Inl AttributeError"
| "py_get (JBool b) key dflt = Inl AttributeError"
| "py_get (JInt i) key dflt = Inl AttributeError"
| "py_get (JFloat x) key dflt = Inl AttributeError"
| "py_get (JStr s) key dflt = Inl AttributeError"
| "py_get (JArr xs) key dflt = Inl AttributeError"

subsection \<open>Logging and exceptions in sequence\<close>

text \<open>The log records that \<open>server2client\<close> writes, without their wording.\<close>

datatype log_event =
    HandleUpdated
  | GoAwayWarning json bool
  | AISpeaking
  | AISaid json
  | UserSaid json
  | GenerationComplete
  | SetupComplete
  | ErrorServer2Client py_error

text \<open>A piece of code that logs and then either raises or yields a value; \<open>then_do\<close>
  runs the next piece unless the first raised.\<close>

type_synonym 'a logging = "log_event list \<times> (py_error + 'a)"

definition then_do :: "'a logging \<Rightarrow> ('a \<Rightarrow> 'b logging) \<Rightarrow> 'b logging" where
  "then_do x f =
     (case x of
        (l, Inl e) \<Rightarrow> (l, Inl e)
      | (l, Inr v) \<Rightarrow> (case f v of (l', r) \<Rightarrow> (l @ l', r)))"

definition returning :: "py_error + 'a \<Rightarrow> 'a logging" where
  "returning r = ([], r)"

definition emit :: "log_event \<Rightarrow> unit logging" where
  "emit ev = ([ev], Inr ())"

definition skip :: "unit logging" where
  "skip = ([], Inr ())"

subsection \<open>Inspecting one message\<close>

text \<open>The session resumption update (lines 302 to 306): yields the session handle
  afterwards.\<close>

definition resumption_update :: "json \<Rightarrow> json \<Rightarrow> json logging" where
  "resumption_update session_handle data =
     then_do (returning (py_in ''sessionResumptionUpdate'' data)) (\<lambda>present.
       if present then
         then_do (returning (py_getitem data ''sessionResumptionUpdate'')) (\<lambda>update.
         then_do (returning (py_get update ''resumable'' JNull)) (\<lambda>resumable.
           if truthy resumable then
             then_do (returning (py_get update ''newHandle'' JNull)) (\<lambda>new_handle.
               if truthy new_handle then
                 then_do (returning (py_getitem update ''newHandle'')) (\<lambda>h.
                 then_do (emit HandleUpdated) (\<lambda>u. returning (Inr h)))
               else returning (Inr session_handle))
           else returning (Inr session_handle)))
       else returning (Inr session_handle))"






subsection \<open>The pump\<close>

text \<open>
  The state of the pump: the \<open>nonlocal session_handle\<close> (\<open>None\<close> at first), the message
  count, the texts passed to the client with \<open>send_text\<close>, in order, the records logged,
  and how many more sends the client socket takes before \<open>send_text\<close> raises because
  the client has gone (\<open>None\<close>: it stays).
\<close>

record relay_state =
  session_handle :: json
  msg_count :: nat
  sent :: "string list"
  logged :: "log_event list"
  client_takes :: "nat option"






text \<open>A message whose \<open>sessionResumptionUpdate\<close> is marked resumable and carries a new
  handle, and the handle it carries.\<close>

definition announced_handle :: "json \<Rightarrow> json option" where
  "announced_handle data =
     (case data of
        JObj kvs \<Rightarrow>
          (case map_of kvs ''sessionResumptionUpdate'' of
             Some (JObj update) \<Rightarrow>
               (case (map_of update ''resumable'', map_of update ''newHandle'') of
                  (Some resumable, Some h) \<Rightarrow>
                    if truthy resumable \<and> truthy h then Some h else None
                | _ \<Rightarrow> None)
           | _ \<Rightarrow> None)
      | _ \<Rightarrow> None)"

section \<open>Integer arithmetic of Python\<close>

text \<open>
  \<open>a / b\<close> on two ints is a float: the binary64 number nearest to the exact quotient,
  ties to the even mantissa, and an \<open>OverflowError\<close> when that is beyond the largest
  float; \<open>int(x)\<close> cuts a float off towards zero. \<open>int(a / b)\<close> is computed here on
  integers: the quotient's binary exponent \<open>e\<close> from the bit lengths, the mantissa as
  the quotient scaled by \<open>2 ^ p\<close> and rounded, where \<open>p = e - 52\<close> (53 bits of
  mantissa), or \<open>- 1074\<close> in the subnormal range; the float is \<open>m * 2 ^ p\<close>.
\<close>

fun bit_length :: "nat \<Rightarrow> nat" where
  "bit_length n = (if n = 0 then 0 else Suc (bit_length (n div 2)))"

text \<open>\<open>b * 2 ^ e \<le> a\<close> for an integer exponent of either sign.\<close>

definition scaled_le :: "nat \<Rightarrow> int \<Rightarrow> nat \<Rightarrow> bool" where
  "scaled_le b e a \<longleftrightarrow> (if 0 \<le> e then b * 2 ^ nat e \<le> a else b \<le> a * 2 ^ nat (- e))"

text \<open>The largest \<open>e\<close> with \<open>2 ^ e \<le> a / b\<close>, for positive \<open>a\<close> and \<open>b\<close>.\<close>

definition quotient_exponent :: "nat \<Rightarrow> nat \<Rightarrow> int" where
  "quotient_exponent a b =
     (let d = int (bit_length a) - int (bit_length b)
      in if scaled_le b d a then d else d - 1)"

text \<open>\<open>n / d\<close> rounded to the nearest integer, a tie to the even one.\<close>

definition round_half_even :: "nat \<Rightarrow> nat \<Rightarrow> nat" where
  "round_half_even n d =
     (let q = n div d; r = n mod d
      in if 2 * r < d then q else if d < 2 * r then q + 1 else if even q then q else q + 1)"

text \<open>The float \<open>a / b\<close> for positive \<open>a\<close> and \<open>b\<close>, as mantissa and exponent.\<close>

definition truediv :: "nat \<Rightarrow> nat \<Rightarrow> nat \<times> int" where
  "truediv a b =
     (let p = max (quotient_exponent a b - 52) (- 1074)
      in (if 0 \<le> p then round_half_even a (b * 2 ^ nat p)
          else round_half_even (a * 2 ^ nat (- p)) b, p))"

definition int_truediv :: "int \<Rightarrow> nat \<Rightarrow> py_error + int" where
  "int_truediv a b =
     (if b = 0 then Inl ZeroDivisionError
      else if a = 0 then Inr 0
      else
        (case truediv (nat \<bar>a\<bar>) b of
           (m, p) \<Rightarrow>
             if 0 \<le> p then
               (if 2 ^ 1024 \<le> m * 2 ^ nat p then Inl OverflowError
                else Inr (sgn a * int (m * 2 ^ nat p)))
             else Inr (sgn a * int (m div 2 ^ nat (- p)))))"

text \<open>\<open>max(xs)\<close> and \<open>min(xs)\<close> of a list that is not empty.\<close>

fun py_max :: "int \<Rightarrow> int list \<Rightarrow> int" where
  "py_max x [] = x"
| "py_max x (y # ys) = py_max (if x < y then y else x) ys"

fun py_min :: "int \<Rightarrow> int list \<Rightarrow> int" where
  "py_min x [] = x"
| "py_min x (y # ys) = py_min (if y < x then y else x) ys"

section \<open>Sessions and latency (database.py, config_routes.py)\<close>

text \<open>
  The \<open>interview_sessions\<close> collection is the list of its documents in their natural
  order; \<open>update_one\<close> changes the first document that matches and \<open>find_one\<close>
  returns it. Of a session document the fields that the latency functions touch are
  kept; a missing \<open>latencyLogs\<close> array behaves as an empty one under \<open>$push\<close> and
  \<open>.get("latencyLogs", [])\<close> alike. pymongo encodes the documents of an \<open>update_one\<close>
  as BSON before it sends them and raises \<open>OverflowError\<close> for an int outside the signed
  64-bit range.
\<close>

definition fits_int64 :: "int \<Rightarrow> bool" where
  "fits_int64 v \<longleftrightarrow> - (2 ^ 63) \<le> v \<and> v < 2 ^ 63"

record latency_log =
  loggedAt :: datetime
  userEndTime :: int
  aiStartTime :: int
  latencyMs :: int

record session =
  configToken :: string
  sessionId :: string
  startedAt :: datetime
  endedAt :: "datetime option"
  latencyLogs :: "latency_log list"
  averageLatencyMs :: int
  maxLatencyMs :: int
  minLatencyMs :: int

record database =
  reachable :: bool
  interview_sessions :: "session list"

text \<open>\<open>get_database\<close> raises when the server does not answer.\<close>

definition get_database :: "database \<Rightarrow> py_error + database" where
  "get_database db = (if reachable db then Inr db else Inl ConnectionFailure)"

fun update_one :: "('a \<Rightarrow> bool) \<Rightarrow> ('a \<Rightarrow> 'a) \<Rightarrow> 'a list \<Rightarrow> 'a list" where
  "update_one matches change [] = []"
| "update_one matches change (x # xs) =
     (if matches x then change x # xs else x # update_one matches change xs)"

definition find_one :: "('a \<Rightarrow> bool) \<Rightarrow> 'a list \<Rightarrow> 'a option" where
  "find_one matches xs = find matches xs"

definition create_session :: "database \<Rightarrow> string \<Rightarrow> string \<Rightarrow> datetime \<Rightarrow> (py_error + session) \<times> database" where
  "create_session db config_token session_id now =
     (case get_database db of
        Inl e \<Rightarrow> (Inl e, db)
      | Inr d \<Rightarrow>
          (let s = \<lparr>configToken = config_token, sessionId = session_id, startedAt = now,
                    endedAt = None, latencyLogs = [], averageLatencyMs = 0,
                    maxLatencyMs = 0, minLatencyMs = 0\<rparr>
           in (Inr s, db\<lparr>interview_sessions := interview_sessions db @ [s]\<rparr>)))"

text \<open>
  \<open>log_latency\<close>: the result, or the exception raised, and the database afterwards.
  The first \<open>update_one\<close> raises before anything is stored when a time or the latency
  does not fit. The \<open>$push\<close> has happened when the aggregates are computed, so an
  exception from the division or from the second \<open>update_one\<close> leaves the new entry in
  the log.
\<close>

definition log_latency ::
  "database \<Rightarrow> string \<Rightarrow> int \<Rightarrow> int \<Rightarrow> datetime \<Rightarrow> (py_error + int) \<times> database" where
  "log_latency db session_id user_end_time ai_start_time now =
     (case get_database db of
        Inl e \<Rightarrow> (Inl e, db)
      | Inr d \<Rightarrow>
          (let latency_ms = ai_start_time - user_end_time;
               log_entry = \<lparr>loggedAt = now, userEndTime = user_end_time,
                            aiStartTime = ai_start_time, latencyMs = latency_ms\<rparr>
           in if \<not> (fits_int64 user_end_time \<and> fits_int64 ai_start_time \<and> fits_int64 latency_ms)
              then (Inl OverflowError, db)
              else
                (let pushed = update_one (\<lambda>s. sessionId s = session_id)
                                (\<lambda>s. s\<lparr>latencyLogs := latencyLogs s @ [log_entry]\<rparr>)
                                (interview_sessions db);
                     db1 = db\<lparr>interview_sessions := pushed\<rparr>
                 in case find_one (\<lambda>s. sessionId s = session_id) pushed of
                      None \<Rightarrow> (Inr latency_ms, db1)
                    | Some session \<Rightarrow>
                        (case map latencyMs (latencyLogs session) of
                           [] \<Rightarrow> (Inr latency_ms, db1)
                         | l # ls \<Rightarrow>
                             (case int_truediv (sum_list (l # ls)) (length (l # ls)) of
                                Inl e \<Rightarrow> (Inl e, db1)
                              | Inr average \<Rightarrow>
                                  if \<not> (fits_int64 average \<and> fits_int64 (py_max l ls) \<and>
                                        fits_int64 (py_min l ls))
                                  then (Inl OverflowError, db1)
                                  else
                                    (Inr latency_ms,
                                     db1\<lparr>interview_sessions :=
                                           update_one (\<lambda>s. sessionId s = session_id)
                                             (\<lambda>s. s\<lparr>averageLatencyMs := average,
                                                     maxLatencyMs := py_max l ls,
                                                     minLatencyMs := py_min l ls\<rparr>)
                                             pushed\<rparr>))))))"

text \<open>The route \<open>POST /api/latency/log\<close>: the response body's \<open>latencyMs\<close> and
  \<open>sessionId\<close>; an exception of \<open>log_latency\<close> leaves the route.\<close>

definition log_latency_measurement ::
  "database \<Rightarrow> string \<Rightarrow> int \<Rightarrow> int \<Rightarrow> datetime \<Rightarrow> (py_error + int \<times> string) \<times> database" where
  "log_latency_measurement db session_id user_end_time ai_start_time now =
     (case log_latency db session_id user_end_time ai_start_time now of
        (Inl e, db') \<Rightarrow> (Inl e, db')
      | (Inr latency_ms, db') \<Rightarrow> (Inr (latency_ms, session_id), db'))"

section \<open>Example inputs\<close>

text \<open>The documents that \<open>seed_default_config\<close> and \<open>seed_ai_settings\<close> (database.py)
  store, as far as the record types go.\<close>

definition default_proctoring :: proctoring_settings where
  "default_proctoring =
     \<lparr>enabled = Value True, detectMultiplePeople = Value True, detectPhone = Value True,
      detectTabSwitch = Value True, detectLookingAway = Value True\<rparr>"

definition default_settings :: ai_settings where
  "default_settings =
     \<lparr>silenceWarning1Seconds = Value 35, silenceWarning2Seconds = Value 50,
      silenceEndSeconds = Value 60, autoEndDelaySeconds = Value 8,
      userSpeechEndDelayMs = Value 500, aiResponseDelayMs = Value 200,
      interruptionThresholdMs = Value 300, maxQuestions = Value 10\<rparr>"

definition default_config :: config where
  "default_config =
     \<lparr>voiceName = Value ''Aoede'', companyName = Value ''Demo Company'',
      jobRole = Value ''Software Engineer'', candidateName = Null,
      language = Value ''indian-english'', country = Value ''India'',
      industryType = Value ''Information Technology'', yearsOfExperience = Value ''1-3'',
      durationMinutes = Value 30, systemPrompt = Null,
      proctoring = Value default_proctoring, aiSettings = Value default_settings\<rparr>"

text \<open>An identity provider that issues the token \<open>ya29.fresh\<close> from
  \<open>GOOGLE_CREDENTIALS_JSON\<close>, and one whose refresh fails.\<close>

definition issuing_provider :: "unit auth_env" where
  "issuing_provider =
     \<lparr>file_credentials = None, json_credentials = Some (Inr ()),
      refresh = (\<lambda>c. Inr (Some ''ya29.fresh''))\<rparr>"

definition failing_provider :: "unit auth_env" where
  "failing_provider =
     \<lparr>file_credentials = None, json_credentials = Some (Inr ()),
      refresh = (\<lambda>c. Inl ConnectionFailure)\<rparr>"

text \<open>A manager holding the token \<open>ya29.cached\<close> until time 100.\<close>

definition caching_manager :: ConnectionManager where
  "caching_manager = (init 0)\<lparr>token_cache := Some ''ya29.cached'', token_expiry := Some 100\<rparr>"

text \<open>A run of the handler in which MongoDB cannot be reached when the configuration
  is loaded, and nothing else fails.\<close>

definition mongo_down :: "unit handler_env" where
  "mongo_down =
     \<lparr>accept_raises = None, config_by_token = Inl ConnectionFailure,
      config_default = Inr (Some default_config), send_json_raises = None,
      auth = issuing_provider, upstream_raises = None, close_raises = None,
      now_added = 1, now_token = 2, now_removed = 3\<rparr>"

text \<open>A run in which the client has gone when the configuration message is sent.\<close>

definition client_gone :: "unit handler_env" where
  "client_gone =
     \<lparr>accept_raises = None, config_by_token = Inr (Some default_config),
      config_default = Inr (Some default_config), send_json_raises = Some WebSocketDisconnect,
      auth = issuing_provider, upstream_raises = None, close_raises = None,
      now_added = 1, now_token = 2, now_removed = 3\<rparr>"






text \<open>
  A reachable database with one session: with the latency of 450 ms logged
  (\<open>one_latency\<close>), just created (\<open>fresh_session\<close>), and after the latencies \<open>- 1\<close> and
  \<open>- 2\<close> have been logged into the fresh session (\<open>negative_latencies\<close>).
\<close>

definition one_latency :: database where
  "one_latency =
     \<lparr>reachable = True,
      interview_sessions =
        [\<lparr>configToken = ''default'', sessionId = ''sid'', startedAt = 0, endedAt = None,
          latencyLogs = [\<lparr>loggedAt = 1, userEndTime = 1000, aiStartTime = 1450, latencyMs = 450\<rparr>],
          averageLatencyMs = 450, maxLatencyMs = 450, minLatencyMs = 450\<rparr>]\<rparr>"

definition fresh_session :: database where
  "fresh_session =
     snd (create_session \<lparr>reachable = True, interview_sessions = []\<rparr> ''default'' ''sid'' 0)"

definition negative_latencies :: database where
  "negative_latencies =
     snd (log_latency (snd (log_latency fresh_session ''sid'' 1000 999 1)) ''sid'' 2000 1998 2)"

section \<open>Properties of the connection manager\<close>









section \<open>Properties of the credential cache\<close>

lemma get_cached_token_keeps_cache_nonempty:
  "token_cache m \<noteq> Some [] \<Longrightarrow>
   token_cache (fst (snd (get_cached_token now env m))) \<noteq> Some []"
  by (auto simp: get_cached_token_def Let_def)

text \<open>
  C8. A cached token whose expiry lies in the future is returned and
  \<open>get_access_token\<close> is not called. Otherwise a token is fetched; a fetched token is
  returned and stored with the expiry 50 minutes after the time of the call; when the
  fetch gives nothing the call gives nothing and the manager, with its cached token and
  expiry, is as before.
\<close>

theorem get_cached_token_contract:
  "(token_cache m = Some t \<and> t \<noteq> [] \<and> token_expiry m = Some expiry \<and> now < expiry \<longrightarrow>
      get_cached_token now env m = (Some t, m, False)) \<and>
   (\<not> (truthy_str (token_cache m) \<and> (\<exists>e. token_expiry m = Some e \<and> now < e)) \<longrightarrow>
      (get_access_token env = Some t' \<and> t' \<noteq> [] \<longrightarrow>
         get_cached_token now env m =
           (Some t', m\<lparr>token_cache := Some t',
                        token_expiry := Some (now + timedelta_minutes 50)\<rparr>, True)) \<and>
      (\<not> truthy_str (get_access_token env) \<longrightarrow>
         get_cached_token now env m = (get_access_token env, m, True)))"
  by (auto simp: get_cached_token_def Let_def split: option.splits)

theorem get_cached_token_contract_witness:
  "get_cached_token 50 failing_provider caching_manager = (Some ''ya29.cached'', caching_manager, False) \<and>
   get_cached_token 100 issuing_provider caching_manager =
     (Some ''ya29.fresh'',
      caching_manager\<lparr>token_cache := Some ''ya29.fresh'', token_expiry := Some 3000000100\<rparr>, True) \<and>
   get_cached_token 100 failing_provider caching_manager = (None, caching_manager, True)"
  using get_cached_token_contract [of caching_manager "''ya29.cached''" 100 50 failing_provider]
        get_cached_token_contract [of caching_manager _ _ 100 issuing_provider "''ya29.fresh''"]
        get_cached_token_contract [of caching_manager _ _ 100 failing_provider]
  by (simp add: caching_manager_def init_def issuing_provider_def failing_provider_def
      get_access_token_def refresh_token_def timedelta_minutes_def)

section \<open>Properties of the websocket handler\<close>

lemma release_counts:
  "added (release now r) = added r" "removed (release now r) = Suc (removed r)"
  "raised (release now r) = raised r" "setup_prompt (release now r) = setup_prompt r"
  by (simp_all add: release_def)

lemma close_counts:
  "added (close env code reason r) = added r" "removed (close env code reason r) = removed r"
  "setup_prompt (close env code reason r) = setup_prompt r"
  by (simp_all add: close_def)

lemma upstream_session_releases_once:
  "removed (upstream_session env prompt r) = Suc (removed r) \<and>
   added (upstream_session env prompt r) = added r"
  by (simp add: upstream_session_def Let_def release_counts close_counts split: option.splits)

text \<open>Once the handler has reached the \<open>try\<close> block of the upstream connection, or has
  found no configuration or no token, it releases its slot exactly once. A handler that
  holds a slot and never releases it was left by an exception.\<close>

lemma start_session_releases:
  "added r1 = 1 \<Longrightarrow> removed r1 = 0 \<Longrightarrow>
   removed (start_session env prompt r1) = 1 \<or>
   removed (start_session env prompt r1) = 0 \<and> raised (start_session env prompt r1) \<noteq> None"
  by (auto simp: start_session_def upstream_session_releases_once release_counts close_counts
      split: option.splits prod.splits)

lemma websocket_interview_releases:
  "added (websocket_interview MAX_CONCURRENT_CONNECTIONS env m) = 1 \<Longrightarrow>
   removed (websocket_interview MAX_CONCURRENT_CONNECTIONS env m) = 1 \<or>
   removed (websocket_interview MAX_CONCURRENT_CONNECTIONS env m) = 0 \<and>
   raised (websocket_interview MAX_CONCURRENT_CONNECTIONS env m) \<noteq> None"
  using start_session_releases [of _ env]
  by (auto simp: websocket_interview_def run_with_config_def Let_def release_counts close_counts
      split: option.splits sum.splits if_splits)

text \<open>The same happens when \<open>websocket.send_json\<close> raises because the client has
  gone.\<close>

lemma slot_leaked_when_client_gone:
  "added (websocket_interview 1000 client_gone (init 0)) = 1 \<and>
   removed (websocket_interview 1000 client_gone (init 0)) = 0 \<and>
   raised (websocket_interview 1000 client_gone (init 0)) = Some WebSocketDisconnect"
  by (simp add: websocket_interview_def client_gone_def load_config_def init_def
      can_accept_connection_def run_with_config_def start_session_def system_prompt_def
      default_config_def Let_def)

text \<open>
  C2. A handler that has acquired its slot is to release it exactly once on every way
  out. When \<open>get_config_by_token\<close> raises because MongoDB cannot be reached, the handler
  has called \<open>add_connection\<close> once and \<open>remove_connection\<close> never, and the exception
  leaves it: the active count stays at 1 with no client connected.
\<close>

theorem slot_leaked_when_config_load_raises:
  "added (websocket_interview 1000 mongo_down (init 0)) = 1 \<and>
   removed (websocket_interview 1000 mongo_down (init 0)) = 0 \<and>
   raised (websocket_interview 1000 mongo_down (init 0)) = Some ConnectionFailure \<and>
   active_connections (manager_after (websocket_interview 1000 mongo_down (init 0))) = 1"
  by (simp add: websocket_interview_def mongo_down_def load_config_def init_def
      can_accept_connection_def add_connection_def deque_append_def Let_def)

section \<open>Properties of the system prompt\<close>

lemma sublist_skip: "sublist xs ys \<Longrightarrow> sublist xs (zs @ ys)"
  by (auto simp: sublist_def) (metis append.assoc)


lemma prompt_template_section:
  "sublist (if rules \<noteq> [] then rules else proctoring_disabled)
     (prompt_template lang a b c d e f g rules i j k)"
  unfolding prompt_template_def
  by (intro sublist_append_rightI sublist_skip)

lemma proctoring_rules_disabled: "enabled p = Value False \<Longrightarrow> proctoring_rules p = []"
  by (simp add: proctoring_rules_def)

lemma proctoring_rules_all_off:
  "detectMultiplePeople p = Value False \<Longrightarrow> detectPhone p = Value False \<Longrightarrow>
   detectLookingAway p = Value False \<Longrightarrow> detectTabSwitch p = Value False \<Longrightarrow>
   proctoring_rules p = []"
  by (simp add: proctoring_rules_def proctoring_rule_list_def)

lemma generate_dynamic_prompt_no_rules:
  "proctoring_rules p = [] \<Longrightarrow> sublist proctoring_disabled (generate_dynamic_prompt config ai p)"
  unfolding generate_dynamic_prompt_def Let_def
  using prompt_template_section [where rules = "proctoring_rules p"]
  by (simp only: if_False simp_thms)

text \<open>
  C6. When the configuration's \<open>systemPrompt\<close> is a non-empty string, that string is
  the system prompt, whatever the other fields, the AI settings and the proctoring
  settings are; \<open>generate_dynamic_prompt\<close> is not consulted.
\<close>

theorem system_prompt_override:
  "systemPrompt config = Value X \<Longrightarrow> X \<noteq> [] \<Longrightarrow> system_prompt config ai proctoring' = Inr X"
  by (simp add: system_prompt_def)

theorem system_prompt_override_witness:
  "systemPrompt (default_config\<lparr>systemPrompt := Value ''X''\<rparr>) = Value ''X'' \<and> ''X'' \<noteq> [] \<and>
   system_prompt (default_config\<lparr>systemPrompt := Value ''X''\<rparr>) default_settings None = Inr ''X''"
  using system_prompt_override [of "default_config\<lparr>systemPrompt := Value ''X''\<rparr>" "''X''"
      default_settings None]
  by simp






text \<open>
  C9. With proctoring enabled and all four detectors switched off, no rule is put into
  the prompt, the prompt contains the sentence that proctoring is disabled, and it is
  the very prompt that the same settings with proctoring switched off give.
\<close>

theorem proctoring_enabled_without_detectors:
  assumes "enabled p = Value True"
    and "detectMultiplePeople p = Value False" and "detectPhone p = Value False"
    and "detectLookingAway p = Value False" and "detectTabSwitch p = Value False"
  shows "proctoring_rules p = [] \<and>
         sublist proctoring_disabled (generate_dynamic_prompt config ai p) \<and>
         generate_dynamic_prompt config ai p =
           generate_dynamic_prompt config ai (p\<lparr>enabled := Value False\<rparr>)"
proof -
  have r: "proctoring_rules p = []"
    using assms(2-5) by (rule proctoring_rules_all_off)
  have r': "proctoring_rules (p\<lparr>enabled := Value False\<rparr>) = []"
    by (rule proctoring_rules_disabled) simp
  have "generate_dynamic_prompt config ai p =
           generate_dynamic_prompt config ai (p\<lparr>enabled := Value False\<rparr>)"
    unfolding generate_dynamic_prompt_def Let_def by (simp only: r r')
  then show ?thesis using r generate_dynamic_prompt_no_rules by blast
qed

theorem proctoring_enabled_without_detectors_witness:
  "proctoring_rules (default_proctoring
     \<lparr>detectMultiplePeople := Value False, detectPhone := Value False,
      detectTabSwitch := Value False, detectLookingAway := Value False\<rparr>) = [] \<and>
   sublist proctoring_disabled
     (generate_dynamic_prompt default_config default_settings
        (default_proctoring
           \<lparr>detectMultiplePeople := Value False, detectPhone := Value False,
            detectTabSwitch := Value False, detectLookingAway := Value False\<rparr>)) \<and>
   generate_dynamic_prompt default_config default_settings
     (default_proctoring
        \<lparr>detectMultiplePeople := Value False, detectPhone := Value False,
         detectTabSwitch := Value False, detectLookingAway := Value False\<rparr>) =
   generate_dynamic_prompt default_config default_settings
     (default_proctoring
        \<lparr>detectMultiplePeople := Value False, detectPhone := Value False,
         detectTabSwitch := Value False, detectLookingAway := Value False, enabled := Value False\<rparr>)"
  by (rule proctoring_enabled_without_detectors) (simp_all add: default_proctoring_def)

section \<open>Properties of the relay\<close>

lemmas logging_defs = then_do_def returning_def emit_def skip_def

lemma resumption_update_handle:
  "resumption_update h data = (l, Inr h') \<Longrightarrow> h' = h \<or> announced_handle data = Some h'"
  by (cases data)
    (auto simp: resumption_update_def announced_handle_def logging_defs
      split: if_splits option.splits json.splits sum.splits prod.splits)

lemma resumption_update_keeps:
  "resumption_update h data = (l, Inr h') \<Longrightarrow> announced_handle data = None \<Longrightarrow> h' = h"
  using resumption_update_handle by fastforce


















section \<open>Properties of the integer arithmetic\<close>

lemma bit_length_bounds:
  "0 < n \<Longrightarrow> 2 ^ (bit_length n - 1) \<le> n \<and> n < 2 ^ bit_length n"
proof (induction n rule: bit_length.induct)
  case (1 n)
  show ?case
  proof (cases "n div 2 = 0")
    case True
    with "1.prems" have "n = 1" by (simp add: div_eq_0_iff)
    then show ?thesis by simp
  next
    case False
    then have pos: "0 < n div 2" by simp
    from "1.prems" have n0: "n \<noteq> 0" by simp
    from "1.IH" [OF n0 pos]
    have lo: "2 ^ (bit_length (n div 2) - 1) \<le> n div 2"
      and hi: "n div 2 < 2 ^ bit_length (n div 2)" by simp_all
    have bl: "bit_length n = Suc (bit_length (n div 2))"
      using n0 by (subst bit_length.simps) simp
    from pos have blpos: "0 < bit_length (n div 2)"
      by (subst bit_length.simps) simp
    then have "(2::nat) ^ (bit_length n - 1) = 2 * 2 ^ (bit_length (n div 2) - 1)"
      unfolding bl by (cases "bit_length (n div 2)") simp_all
    with lo have "2 ^ (bit_length n - 1) \<le> 2 * (n div 2)" by simp
    also have "\<dots> \<le> n" by simp
    finally have A: "2 ^ (bit_length n - 1) \<le> n" .
    from hi have "n div 2 + 1 \<le> 2 ^ bit_length (n div 2)" by simp
    then have "2 * (n div 2) + 2 \<le> 2 ^ bit_length n" unfolding bl by simp
    moreover have "n < 2 * (n div 2) + 2" by presburger
    ultimately have "n < 2 ^ bit_length n" by linarith
    with A show ?thesis by simp
  qed
qed

lemma bit_length_pos: "0 < n \<Longrightarrow> 0 < bit_length n"
  by (subst bit_length.simps) simp

lemma quotient_exponent_lower:
  assumes "0 < a" and "0 < b"
  shows "scaled_le b (quotient_exponent a b) a"
proof -
  define la where "la = bit_length a"
  define lb where "lb = bit_length b"
  define d where "d = int la - int lb"
  from bit_length_bounds [OF assms(1)] have a_lo: "2 ^ (la - 1) \<le> a" and a_hi: "a < 2 ^ la"
    by (simp_all add: la_def)
  from bit_length_bounds [OF assms(2)] have b_lo: "2 ^ (lb - 1) \<le> b" and b_hi: "b < 2 ^ lb"
    by (simp_all add: lb_def)
  from bit_length_pos [OF assms(1)] have la_pos: "0 < la" by (simp add: la_def)
  from bit_length_pos [OF assms(2)] have lb_pos: "0 < lb" by (simp add: lb_def)
  show ?thesis
  proof (cases "scaled_le b d a")
    case True
    then show ?thesis by (simp add: quotient_exponent_def Let_def d_def la_def lb_def)
  next
    case False
    then have e: "quotient_exponent a b = d - 1"
      by (simp add: quotient_exponent_def Let_def d_def la_def lb_def)
    have "scaled_le b (d - 1) a"
    proof (cases "1 \<le> d")
      case True
      then have la_eq: "la = lb + nat (d - 1) + 1" using d_def by linarith
      have "b * 2 ^ nat (d - 1) \<le> 2 ^ lb * 2 ^ nat (d - 1)"
        using b_hi by simp
      also have "\<dots> = 2 ^ (la - 1)" by (simp add: la_eq power_add)
      also have "\<dots> \<le> a" by (rule a_lo)
      finally show ?thesis using True by (simp add: scaled_le_def)
    next
      case False
      then have lb_eq: "lb = (la - 1) + nat (- (d - 1))" using d_def la_pos by linarith
      have "b \<le> 2 ^ lb" using b_hi by simp
      also have "\<dots> = 2 ^ (la - 1) * 2 ^ nat (- (d - 1))" by (subst lb_eq) (simp add: power_add)
      also have "\<dots> \<le> a * 2 ^ nat (- (d - 1))" using a_lo by simp
      finally show ?thesis using False by (simp add: scaled_le_def)
    qed
    with e show ?thesis by simp
  qed
qed

lemma round_half_even_cases:
  "round_half_even n d = n div d \<or>
   (round_half_even n d = n div d + 1 \<and> d \<le> 2 * (n mod d))"
  by (auto simp: round_half_even_def Let_def)

lemma succ_div_changes:
  fixes q c k :: nat
  assumes "0 < c" and "q div c = k" and "(q + 1) div c \<noteq> k"
  shows "q + 1 = (k + 1) * c"
proof -
  have q: "q = k * c + q mod c" using assms(2) by (metis div_mult_mod_eq)
  have lt: "q mod c < c" using assms(1) by simp
  have "q mod c + 1 = c"
  proof (rule ccontr)
    assume "q mod c + 1 \<noteq> c"
    with lt have small: "q mod c + 1 < c" by simp
    have "q + 1 = k * c + (q mod c + 1)" using q by simp
    then have "(q + 1) div c = (k * c + (q mod c + 1)) div c" by simp
    also have "\<dots> = k + (q mod c + 1) div c"
      by (rule div_mult_self3) (use assms(1) in simp)
    also have "\<dots> = k" using small by simp
    finally show False using assms(3) by simp
  qed
  with q show ?thesis by (simp add: algebra_simps)
qed

lemma truediv_exact:
  assumes a: "0 < a" and b: "0 < b" and small: "a < 2 ^ 53"
  shows "case truediv a b of (m, p) \<Rightarrow>
           if 0 \<le> p then p = 0 \<and> m = a div b else m div 2 ^ nat (- p) = a div b"
proof -
  define e where "e = quotient_exponent a b"
  define p where "p = max (e - 52) (- 1074)"
  have E1: "scaled_le b e a" unfolding e_def using a b by (rule quotient_exponent_lower)
  have e_le: "e \<le> 52"
  proof (rule ccontr)
    assume "\<not> e \<le> 52"
    then have e53: "53 \<le> nat e" and e0: "0 \<le> e" by simp_all
    from E1 e0 have "b * 2 ^ nat e \<le> a" by (simp add: scaled_le_def)
    moreover have "(2::nat) ^ 53 \<le> 2 ^ nat e" using e53 by (intro power_increasing) simp_all
    moreover have "(2::nat) ^ nat e \<le> b * 2 ^ nat e" using b by simp
    ultimately show False using small by linarith
  qed
  then have p_le: "p \<le> 0" by (simp add: p_def)
  have td: "truediv a b =
      (if 0 \<le> p then round_half_even a (b * 2 ^ nat p)
       else round_half_even (a * 2 ^ nat (- p)) b, p)"
    by (simp add: truediv_def Let_def p_def e_def)
  show ?thesis
  proof (cases "p = 0")
    case True
    then have "e = 52" using e_le by (simp add: p_def)
    with E1 have "b * 2 ^ 52 \<le> a" by (simp add: scaled_le_def)
    with small have "b * 2 ^ 52 < (2::nat) ^ 53" by linarith
    then have "b < 2" by simp
    with b have b1: "b = 1" by simp
    then show ?thesis using True td by (simp add: round_half_even_def Let_def)
  next
    case False
    with p_le have p_neg: "p < 0" by simp
    define j where "j = nat (- p)"
    define N where "N = a * 2 ^ j"
    define q where "q = N div b"
    define r where "r = N mod b"
    define k where "k = a div b"
    have m_eq: "fst (truediv a b) = round_half_even N b" and p_eq: "snd (truediv a b) = p"
      using td p_neg by (simp_all add: N_def j_def)
    have "q div 2 ^ j = N div (b * 2 ^ j)" unfolding q_def by (simp add: div_mult2_eq)
    also have "\<dots> = k" unfolding N_def k_def by simp
    finally have F1: "q div 2 ^ j = k" .
    have "round_half_even N b div 2 ^ j = k"
    proof (rule ccontr)
      assume neq: "round_half_even N b div 2 ^ j \<noteq> k"
      from round_half_even_cases [of N b] neq F1
      have up: "round_half_even N b = q + 1" and half: "b \<le> 2 * r"
        by (auto simp: q_def r_def)
      from neq up have "(q + 1) div 2 ^ j \<noteq> k" by simp
      with succ_div_changes [of "2 ^ j" q k] F1 have q1: "q + 1 = (k + 1) * 2 ^ j" by simp
      have Nqr: "N = q * b + r" unfolding q_def r_def by simp
      have "a < (k + 1) * b" unfolding k_def using b
        by (metis Suc_eq_plus1 dividend_less_div_times mult.commute mult_Suc)
      then have "a + 1 \<le> (k + 1) * b" by simp
      then have "(a + 1) * 2 ^ j \<le> ((k + 1) * b) * 2 ^ j" by (rule mult_le_mono1)
      also have "\<dots> = (q + 1) * b" using q1 by (simp add: algebra_simps)
      also have "\<dots> = N + b - r" using Nqr by (simp add: algebra_simps)
      finally have "N + 2 ^ j \<le> N + b - r" by (simp add: N_def algebra_simps)
      moreover have "r < b" unfolding r_def using b by simp
      ultimately have "2 ^ j + r \<le> b" by linarith
      with half have B: "2 * 2 ^ j \<le> b" by linarith
      show False
      proof (cases "- 1074 \<le> e - 52")
        case True
        then have pe: "p = e - 52" by (simp add: p_def)
        show False
        proof (cases "0 \<le> e")
          case True
          with E1 have "b * 2 ^ nat e \<le> a" by (simp add: scaled_le_def)
          moreover have "(2 * 2 ^ j) * 2 ^ nat e \<le> b * 2 ^ nat e" using B by (rule mult_le_mono1)
          moreover have "(2 * 2 ^ j) * 2 ^ nat e = (2::nat) ^ (1 + j + nat e)"
            by (simp add: power_add)
          moreover have "1 + j + nat e = 53" using True pe p_neg by (simp add: j_def)
          ultimately show False using small by simp
        next
          case False
          with E1 have "b \<le> a * 2 ^ nat (- e)" by (simp add: scaled_le_def)
          with B have "2 * 2 ^ j \<le> a * 2 ^ nat (- e)" by linarith
          moreover have "j = 52 + nat (- e)" using False pe by (simp add: j_def)
          ultimately have "2 ^ 53 * 2 ^ nat (- e) \<le> a * 2 ^ nat (- e)"
            by (simp add: power_add)
          then have "2 ^ 53 \<le> a" by simp
          with small show False by simp
        qed
      next
        case False
        then have "p = - 1074" by (simp add: p_def)
        then have j53: "53 \<le> j" by (simp add: j_def)
        have "q * b \<le> N" using Nqr by simp
        moreover have "q * (2 * 2 ^ j) \<le> q * b" using B by (rule mult_le_mono2)
        ultimately have "q * (2 * 2 ^ j) \<le> N" by (rule order_trans [rotated])
        moreover have "q * (2 * 2 ^ j) = (2 * q) * 2 ^ j" by simp
        ultimately have "(2 * q) * 2 ^ j \<le> a * 2 ^ j" by (simp only: N_def)
        then have "2 * q \<le> a" by simp
        with small have "q + 1 < 2 ^ 53" by simp
        moreover have "(2::nat) ^ 53 \<le> 2 ^ j" using j53 by (intro power_increasing) simp_all
        moreover have "(2::nat) ^ j \<le> (k + 1) * 2 ^ j" by simp
        ultimately show False using q1 by linarith
      qed
    qed
    then show ?thesis using m_eq p_eq p_neg
      by (cases "truediv a b") (simp add: k_def j_def)
  qed
qed

lemma int_truediv_exact:
  assumes "0 < b" and "\<bar>a\<bar> < 2 ^ 53"
  shows "int_truediv a b = Inr (sgn a * (\<bar>a\<bar> div int b))"
proof (cases "a = 0")
  case True
  then show ?thesis using assms(1) by (simp add: int_truediv_def)
next
  case False
  then have pos: "0 < nat \<bar>a\<bar>" by simp
  from assms(2) have "nat \<bar>a\<bar> < 2 ^ 53"
    by (metis nat_less_iff abs_ge_zero of_nat_numeral of_nat_power)
  from truediv_exact [OF pos assms(1) this] obtain m p where
    td: "truediv (nat \<bar>a\<bar>) b = (m, p)" and
    r: "if 0 \<le> p then p = 0 \<and> m = nat \<bar>a\<bar> div b else m div 2 ^ nat (- p) = nat \<bar>a\<bar> div b"
    by (cases "truediv (nat \<bar>a\<bar>) b") auto
  have conv: "int (nat \<bar>a\<bar> div b) = \<bar>a\<bar> div int b"
    by (simp add: zdiv_int)
  show ?thesis
  proof (cases "0 \<le> p")
    case True
    with r have p0: "p = 0" and m: "m = nat \<bar>a\<bar> div b" by simp_all
    have "m \<le> nat \<bar>a\<bar>" unfolding m by simp
    with \<open>nat \<bar>a\<bar> < 2 ^ 53\<close> have "m < 2 ^ 53" by simp
    moreover have "(2::nat) ^ 53 < 2 ^ 1024" by (intro power_strict_increasing) simp_all
    ultimately have "\<not> 2 ^ 1024 \<le> m" by simp
    then show ?thesis using False assms(1) td p0 m conv
      by (simp add: int_truediv_def)
  next
    case False
    with r have "m div 2 ^ nat (- p) = nat \<bar>a\<bar> div b" by simp
    then show ?thesis using \<open>a \<noteq> 0\<close> False assms(1) td conv
      by (simp add: int_truediv_def)
  qed
qed

section \<open>Properties of the latency log\<close>

lemma update_one_no_match: "find matches xs = None \<Longrightarrow> update_one matches change xs = xs"
  by (induction xs) (auto split: if_splits)

lemma find_update_one:
  "(\<And>x. matches x \<Longrightarrow> matches (change x)) \<Longrightarrow>
   find matches (update_one matches change xs) = map_option change (find matches xs)"
  by (induction xs) auto

lemma py_max_fold: "py_max x ys = fold max ys x"
  by (induction ys arbitrary: x) (simp_all add: max_def not_less)

lemma py_min_fold: "py_min x ys = fold min ys x"
  by (induction ys arbitrary: x) (simp_all add: min_def not_less)

lemma py_max_Max: "py_max x ys = Max (set (x # ys))"
  by (simp only: py_max_fold Max.set_eq_fold)

lemma py_min_Min: "py_min x ys = Min (set (x # ys))"
  by (simp only: py_min_fold Min.set_eq_fold)

lemma log_latency_overflow:
  "reachable db \<Longrightarrow>
   \<not> (fits_int64 user_end_time \<and> fits_int64 ai_start_time \<and>
      fits_int64 (ai_start_time - user_end_time)) \<Longrightarrow>
   log_latency db session_id user_end_time ai_start_time now = (Inl OverflowError, db)"
  by (simp add: log_latency_def get_database_def Let_def)

text \<open>
  C10. When no session document has the given \<open>sessionId\<close> and the two times and
  their difference fit into 64 bits, \<open>log_latency\<close> raises no error for the missing
  session: with the database reachable it returns \<open>ai_start_time - user_end_time\<close>, the
  route answers with that latency, and the database is as before; when MongoDB cannot
  be reached it raises \<open>ConnectionFailure\<close>, as it does for a session that exists.
\<close>

theorem log_latency_without_session:
  "find_one (\<lambda>s. sessionId s = session_id) (interview_sessions db) = None \<Longrightarrow>
   fits_int64 user_end_time \<Longrightarrow> fits_int64 ai_start_time \<Longrightarrow>
   fits_int64 (ai_start_time - user_end_time) \<Longrightarrow>
   log_latency db session_id user_end_time ai_start_time now =
     (if reachable db then Inr (ai_start_time - user_end_time) else Inl ConnectionFailure, db) \<and>
   log_latency_measurement db session_id user_end_time ai_start_time now =
     (if reachable db then Inr (ai_start_time - user_end_time, session_id)
      else Inl ConnectionFailure, db)"
  by (simp add: log_latency_measurement_def log_latency_def get_database_def find_one_def
      update_one_no_match Let_def)

text \<open>
  C3. After \<open>log_latency\<close> on a session that exists, whatever its log held before and
  whatever the signs of the latencies, the log has the new latency at its end, the
  stored maximum and minimum are those of the whole log, and the stored average is the
  sum divided by the count and cut off towards zero, which is the floor of the mean when
  the sum is not negative. The sum is below \<open>2 ^ 53\<close> in absolute value, so that the
  float quotient has the integer part of the exact one; the database is reachable, and
  the two times, the latency and the latencies in the log fit into 64 bits, as stored
  integers do.
\<close>

theorem log_latency_aggregates:
  assumes "reachable db"
    and "find_one (\<lambda>s. sessionId s = session_id) (interview_sessions db) = Some s"
    and "\<bar>sum_list (map latencyMs (latencyLogs s)) + (ai_start_time - user_end_time)\<bar> < 2 ^ 53"
    and "fits_int64 user_end_time" and "fits_int64 ai_start_time"
    and "fits_int64 (ai_start_time - user_end_time)"
    and "\<forall>l \<in> set (latencyLogs s). fits_int64 (latencyMs l)"
  shows "\<exists>db' s'.
      log_latency db session_id user_end_time ai_start_time now =
        (Inr (ai_start_time - user_end_time), db') \<and>
      find_one (\<lambda>s. sessionId s = session_id) (interview_sessions db') = Some s' \<and>
      map latencyMs (latencyLogs s') =
        map latencyMs (latencyLogs s) @ [ai_start_time - user_end_time] \<and>
      averageLatencyMs s' =
        sgn (sum_list (map latencyMs (latencyLogs s'))) *
          (\<bar>sum_list (map latencyMs (latencyLogs s'))\<bar> div int (length (latencyLogs s'))) \<and>
      (0 \<le> sum_list (map latencyMs (latencyLogs s')) \<longrightarrow>
         averageLatencyMs s' =
           \<lfloor>real_of_int (sum_list (map latencyMs (latencyLogs s'))) / real (length (latencyLogs s'))\<rfloor>) \<and>
      maxLatencyMs s' = Max (set (map latencyMs (latencyLogs s'))) \<and>
      minLatencyMs s' = Min (set (map latencyMs (latencyLogs s')))"
proof -
  define entry where "entry =
    \<lparr>loggedAt = now, userEndTime = user_end_time, aiStartTime = ai_start_time,
     latencyMs = ai_start_time - user_end_time\<rparr>"
  define matches :: "session \<Rightarrow> bool" where "matches = (\<lambda>s. sessionId s = session_id)"
  define push :: "session \<Rightarrow> session" where "push = (\<lambda>s. s\<lparr>latencyLogs := latencyLogs s @ [entry]\<rparr>)"
  define pushed where "pushed = update_one matches push (interview_sessions db)"
  define s1 where "s1 = push s"
  define ls where "ls = map latencyMs (latencyLogs s1)"
  define S where "S = sum_list ls"
  define n where "n = length ls"
  define agg :: "session \<Rightarrow> session" where "agg = (\<lambda>s. s\<lparr>averageLatencyMs := sgn S * (\<bar>S\<bar> div int n),
      maxLatencyMs := Max (set ls), minLatencyMs := Min (set ls)\<rparr>)"
  have found: "find matches (interview_sessions db) = Some s"
    using assms(2) by (simp add: find_one_def matches_def)
  have f1: "find matches pushed = Some s1"
    unfolding pushed_def s1_def using found
    by (subst find_update_one) (simp_all add: matches_def push_def)
  have ls_eq: "ls = map latencyMs (latencyLogs s) @ [ai_start_time - user_end_time]"
    by (simp add: ls_def s1_def push_def entry_def)
  then have "ls \<noteq> []" by simp
  then obtain l rest where lr: "ls = l # rest" by (cases ls) auto
  have n_pos: "0 < n" by (simp add: n_def ls_eq)
  have "\<bar>S\<bar> < 2 ^ 53" using assms(3) by (simp add: S_def ls_eq)
  with n_pos have avg: "int_truediv S n = Inr (sgn S * (\<bar>S\<bar> div int n))"
    by (rule int_truediv_exact)
  have mx: "py_max l rest = Max (set ls)" and mn: "py_min l rest = Min (set ls)"
    by (simp_all only: py_max_Max py_min_Min lr)
  have all_fit: "\<forall>v \<in> set ls. fits_int64 v"
    using assms(6,7) by (auto simp: ls_eq)
  have "Max (set ls) \<in> set ls" and "Min (set ls) \<in> set ls"
    using \<open>ls \<noteq> []\<close> by simp_all
  with all_fit have fit_mx: "fits_int64 (Max (set ls))" and fit_mn: "fits_int64 (Min (set ls))"
    by blast+
  have fit_avg: "fits_int64 (sgn S * (\<bar>S\<bar> div int n))"
  proof -
    have "0 \<le> \<bar>S\<bar> div int n"
      using n_pos by (simp add: pos_imp_zdiv_nonneg_iff)
    moreover have "\<bar>S\<bar> div int n \<le> \<bar>S\<bar>"
      by (cases "S = 0") (simp_all add: int_div_le_self)
    ultimately have q: "0 \<le> \<bar>S\<bar> div int n" "\<bar>S\<bar> div int n \<le> \<bar>S\<bar>" .
    have "(2::int) ^ 53 \<le> 2 ^ 63" by simp
    with q \<open>\<bar>S\<bar> < 2 ^ 53\<close> show ?thesis
      unfolding fits_int64_def by (cases "S = 0"; cases "S < 0") (simp_all add: sgn_if)
  qed
  have run: "log_latency db session_id user_end_time ai_start_time now =
      (Inr (ai_start_time - user_end_time),
       db\<lparr>interview_sessions := update_one matches agg pushed\<rparr>)"
    using assms(1,4,5,6) f1 lr avg mx mn fit_mx fit_mn fit_avg
    by (simp add: log_latency_def get_database_def Let_def find_one_def
        entry_def [symmetric] matches_def [symmetric] push_def [symmetric]
        pushed_def [symmetric] ls_def [symmetric] S_def n_def agg_def)
  have f2: "find matches (update_one matches agg pushed) = Some (agg s1)"
    using f1 by (subst find_update_one) (simp_all add: matches_def agg_def)
  have logs: "latencyLogs (agg s1) = latencyLogs s1" by (simp add: agg_def)
  have floor_eq: "0 \<le> S \<Longrightarrow> sgn S * (\<bar>S\<bar> div int n) = \<lfloor>real_of_int S / real n\<rfloor>"
  proof -
    assume nonneg: "0 \<le> S"
    have "\<lfloor>real_of_int S / real n\<rfloor> = S div int n"
      by (metis floor_divide_of_int_eq of_int_of_nat_eq)
    moreover have "sgn S * (\<bar>S\<bar> div int n) = S div int n"
      using nonneg by (cases "S = 0") (simp_all add: sgn_if)
    ultimately show ?thesis by simp
  qed
  have A: "map latencyMs (latencyLogs (agg s1)) = ls" by (simp add: logs ls_def)
  have F: "length (latencyLogs (agg s1)) = n" by (simp add: logs n_def ls_def)
  have C: "averageLatencyMs (agg s1) = sgn S * (\<bar>S\<bar> div int n)" by (simp add: agg_def)
  have D: "maxLatencyMs (agg s1) = Max (set ls)" by (simp add: agg_def)
  have E: "minLatencyMs (agg s1) = Min (set ls)" by (simp add: agg_def)
  show ?thesis
  proof (intro exI conjI)
    show "log_latency db session_id user_end_time ai_start_time now =
        (Inr (ai_start_time - user_end_time),
         db\<lparr>interview_sessions := update_one matches agg pushed\<rparr>)"
      by (rule run)
    show "find_one (\<lambda>s. sessionId s = session_id)
        (interview_sessions (db\<lparr>interview_sessions := update_one matches agg pushed\<rparr>)) =
        Some (agg s1)"
      using f2 by (simp add: find_one_def matches_def)
    show "map latencyMs (latencyLogs (agg s1)) =
        map latencyMs (latencyLogs s) @ [ai_start_time - user_end_time]"
      unfolding A by (rule ls_eq)
    show "averageLatencyMs (agg s1) =
        sgn (sum_list (map latencyMs (latencyLogs (agg s1)))) *
          (\<bar>sum_list (map latencyMs (latencyLogs (agg s1)))\<bar> div int (length (latencyLogs (agg s1))))"
      unfolding A F S_def [symmetric] by (rule C)
    show "0 \<le> sum_list (map latencyMs (latencyLogs (agg s1))) \<longrightarrow>
        averageLatencyMs (agg s1) =
          \<lfloor>real_of_int (sum_list (map latencyMs (latencyLogs (agg s1)))) /
            real (length (latencyLogs (agg s1)))\<rfloor>"
      unfolding A F S_def [symmetric] C using floor_eq by simp
    show "maxLatencyMs (agg s1) = Max (set (map latencyMs (latencyLogs (agg s1))))"
      unfolding A by (rule D)
    show "minLatencyMs (agg s1) = Min (set (map latencyMs (latencyLogs (agg s1))))"
      unfolding A by (rule E)
  qed
qed

lemma int_truediv_neg3: "int_truediv (- 3) 2 = Inr (- 1)"
  by (simp add: int_truediv_def truediv_def quotient_exponent_def scaled_le_def
      round_half_even_def Let_def)

lemma int_truediv_neg1: "int_truediv (- 1) 1 = Inr (- 1)"
  by (simp add: int_truediv_def truediv_def quotient_exponent_def scaled_le_def
      round_half_even_def Let_def)

lemma int_truediv_neg3_Suc: "int_truediv (- 3) (Suc (Suc 0)) = Inr (- 1)"
  using int_truediv_neg3 by (simp only: numeral_2_eq_2)

lemma int_truediv_neg1_Suc: "int_truediv (- 1) (Suc 0) = Inr (- 1)"
  using int_truediv_neg1 by (simp only: One_nat_def)

text \<open>Beyond \<open>2 ^ 53\<close> the float quotient is rounded before it is cut off: the average
  of the single latency \<open>2 ^ 53 + 1\<close> is \<open>2 ^ 53\<close>.\<close>

lemma large_latency_average_rounded:
  "int_truediv 9007199254740993 1 = Inr 9007199254740992"
  by (simp add: int_truediv_def truediv_def quotient_exponent_def scaled_le_def
      round_half_even_def Let_def)

theorem negative_latencies_average_not_floor:
  "map (\<lambda>s. (map latencyMs (latencyLogs s), averageLatencyMs s, maxLatencyMs s, minLatencyMs s))
     (interview_sessions negative_latencies) = [([- 1, - 2], - 1, - 1, - 2)] \<and>
   \<lfloor>real_of_int (sum_list [- 1, - 2]) / real (length [- 1, - 2 :: int])\<rfloor> = (- 2 :: int)"
  by (simp add: negative_latencies_def fresh_session_def create_session_def log_latency_def
      get_database_def find_one_def Let_def int_truediv_neg3_Suc int_truediv_neg1_Suc
      fits_int64_def)

theorem log_latency_without_session_witness:
  "find_one (\<lambda>s. sessionId s = ''missing'') (interview_sessions one_latency) = None \<and>
   fits_int64 1600 \<and> fits_int64 2150 \<and> fits_int64 (2150 - 1600) \<and>
   log_latency one_latency ''missing'' 1600 2150 2 = (Inr 550, one_latency) \<and>
   log_latency_measurement one_latency ''missing'' 1600 2150 2 = (Inr (550, ''missing''), one_latency)"
  using log_latency_without_session [of "''missing''" one_latency 1600 2150 2]
  by (simp add: one_latency_def find_one_def fits_int64_def)

text \<open>With times of \<open>2 ^ 63\<close> and \<open>2 ^ 63 + 5\<close> and no such session, the call raises
  \<open>OverflowError\<close> and returns no latency.\<close>

theorem log_latency_without_session_overflow:
  "find_one (\<lambda>s. sessionId s = ''missing'') (interview_sessions one_latency) = None \<and>
   log_latency one_latency ''missing'' 9223372036854775808 9223372036854775813 2 =
     (Inl OverflowError, one_latency) \<and>
   log_latency_measurement one_latency ''missing'' 9223372036854775808 9223372036854775813 2 =
     (Inl OverflowError, one_latency)"
  by (simp add: log_latency_measurement_def log_latency_def get_database_def find_one_def
      one_latency_def fits_int64_def Let_def)

lemma one_latency_facts:
  "reachable one_latency \<and>
   find_one (\<lambda>s. sessionId s = ''sid'') (interview_sessions one_latency) =
     Some (hd (interview_sessions one_latency)) \<and>
   \<bar>sum_list (map latencyMs (latencyLogs (hd (interview_sessions one_latency)))) + (2150 - 1600)\<bar>
     < 2 ^ 53 \<and>
   fits_int64 1600 \<and> fits_int64 2150 \<and> fits_int64 (2150 - 1600) \<and>
   (\<forall>l \<in> set (latencyLogs (hd (interview_sessions one_latency))). fits_int64 (latencyMs l))"
  by (simp add: one_latency_def find_one_def fits_int64_def)

lemma two_latencies_aggregates:
  assumes "map latencyMs (latencyLogs s') = [450, 550]"
   and "averageLatencyMs s' =
        sgn (sum_list (map latencyMs (latencyLogs s'))) *
          (\<bar>sum_list (map latencyMs (latencyLogs s'))\<bar> div int (length (latencyLogs s')))"
   and "maxLatencyMs s' = Max (set (map latencyMs (latencyLogs s')))"
   and "minLatencyMs s' = Min (set (map latencyMs (latencyLogs s')))"
  shows "averageLatencyMs s' = 500 \<and> maxLatencyMs s' = 550 \<and> minLatencyMs s' = 450"
proof -
  have "length (map latencyMs (latencyLogs s')) = 2" unfolding assms(1) by simp
  then have n: "length (latencyLogs s') = 2" by simp
  show ?thesis unfolding assms(2,3,4) unfolding assms(1) n by simp
qed

theorem log_latency_aggregates_witness:
  "reachable one_latency \<and>
   find_one (\<lambda>s. sessionId s = ''sid'') (interview_sessions one_latency) =
     Some (hd (interview_sessions one_latency)) \<and>
   \<bar>sum_list (map latencyMs (latencyLogs (hd (interview_sessions one_latency)))) + (2150 - 1600)\<bar>
     < 2 ^ 53 \<and>
   fits_int64 1600 \<and> fits_int64 2150 \<and> fits_int64 (2150 - 1600) \<and>
   list_all (\<lambda>l. fits_int64 (latencyMs l)) (latencyLogs (hd (interview_sessions one_latency))) \<and>
   (\<exists>db' s'. log_latency one_latency ''sid'' 1600 2150 2 = (Inr 550, db') \<and>
      find_one (\<lambda>s. sessionId s = ''sid'') (interview_sessions db') = Some s' \<and>
      map latencyMs (latencyLogs s') = [450, 550] \<and>
      averageLatencyMs s' = 500 \<and> maxLatencyMs s' = 550 \<and> minLatencyMs s' = 450)"
proof -
  have h1: "reachable one_latency" using one_latency_facts by (rule conjunct1)
  have h2: "find_one (\<lambda>s. sessionId s = ''sid'') (interview_sessions one_latency) =
     Some (hd (interview_sessions one_latency))"
    using one_latency_facts by (simp only:)
  have h3: "\<bar>sum_list (map latencyMs (latencyLogs (hd (interview_sessions one_latency)))) + (2150 - 1600)\<bar>
     < 2 ^ 53"
    using one_latency_facts by (simp only:)
  have h4: "fits_int64 1600" and h5: "fits_int64 2150" and h6: "fits_int64 (2150 - 1600)"
    using one_latency_facts by (simp_all only:)
  have h7: "\<forall>l \<in> set (latencyLogs (hd (interview_sessions one_latency))). fits_int64 (latencyMs l)"
    using one_latency_facts by blast
  then have h7': "list_all (\<lambda>l. fits_int64 (latencyMs l))
      (latencyLogs (hd (interview_sessions one_latency)))"
    by (simp only: list_all_iff)
  have old: "map latencyMs (latencyLogs (hd (interview_sessions one_latency))) = [450]"
    by (simp add: one_latency_def)
  from log_latency_aggregates [OF h1 h2 h3 h4 h5 h6 h7, of 2] obtain db' s' where
    r: "log_latency one_latency ''sid'' 1600 2150 2 = (Inr (2150 - 1600), db')"
    and f: "find_one (\<lambda>s. sessionId s = ''sid'') (interview_sessions db') = Some s'"
    and l: "map latencyMs (latencyLogs s') =
       map latencyMs (latencyLogs (hd (interview_sessions one_latency))) @ [2150 - 1600]"
    and a: "averageLatencyMs s' =
        sgn (sum_list (map latencyMs (latencyLogs s'))) *
          (\<bar>sum_list (map latencyMs (latencyLogs s'))\<bar> div int (length (latencyLogs s')))"
    and mx: "maxLatencyMs s' = Max (set (map latencyMs (latencyLogs s')))"
    and mn: "minLatencyMs s' = Min (set (map latencyMs (latencyLogs s')))"
    by (elim exE conjE)
  from l have l': "map latencyMs (latencyLogs s') = [450, 550]" unfolding old by simp
  from r have r': "log_latency one_latency ''sid'' 1600 2150 2 = (Inr 550, db')" by simp
  have agg: "averageLatencyMs s' = 500 \<and> maxLatencyMs s' = 550 \<and> minLatencyMs s' = 450"
    using l' a mx mn by (rule two_latencies_aggregates)
  have "\<exists>db' s'. log_latency one_latency ''sid'' 1600 2150 2 = (Inr 550, db') \<and>
      find_one (\<lambda>s. sessionId s = ''sid'') (interview_sessions db') = Some s' \<and>
      map latencyMs (latencyLogs s') = [450, 550] \<and>
      averageLatencyMs s' = 500 \<and> maxLatencyMs s' = 550 \<and> minLatencyMs s' = 450"
    using r' f l' agg by (intro exI [of _ db'] exI [of _ s'] conjI) (simp_all only:)
  with h1 h2 h3 h4 h5 h6 h7' show ?thesis by (intro conjI)
qed

end
